theory Spec2Isabelle
  imports Main "HOL-Library.Multiset"
begin

section \<open>The evaluation state of the App component (src/src/App.tsx)\<close>

text \<open>
  The React component \<open>App\<close> keeps its state in \<open>useState\<close> cells. The cells that the
  evaluate modal and \<open>fetchCriterionAnswer\<close> read or write are the fields of one record;
  a handler is a function from the state it was rendered with to the state after its
  setters have been applied.
\<close>

datatype evaluate_status = Idle | Loading

record app_state =
  isEvaluateOpen :: bool
  evaluateVendor :: string
  evaluateApplicantId :: "int option"
  evaluateQuestion :: string
  evaluateAnswer :: string
  evaluateStatus :: evaluate_status
  evaluateExtracting :: bool
  evaluateExtractError :: string
  selectedApplicantId :: "int option"
  selectedQuestionId :: "string option"

subsection \<open>Opening and closing the modal\<close>

definition handleOpenEvaluate :: "string \<Rightarrow> int \<Rightarrow> app_state \<Rightarrow> app_state" where
  "handleOpenEvaluate vendor applicantId s =
     s\<lparr>evaluateVendor := vendor,
       evaluateQuestion := [],
       evaluateAnswer := [],
       evaluateApplicantId := Some applicantId,
       isEvaluateOpen := True,
       evaluateExtractError := []\<rparr>"

definition handleCloseEvaluate :: "app_state \<Rightarrow> app_state" where
  "handleCloseEvaluate s =
     (if evaluateStatus s = Loading then s
      else s\<lparr>isEvaluateOpen := False\<rparr>)"

subsection \<open>Running an evaluation\<close>

text \<open>
  \<open>String.prototype.trim\<close> removes white space at both ends. Strings are modelled as
  lists of 8-bit characters, so the white space is the ASCII part of what JavaScript
  strips: tab, line feed, vertical tab, form feed, carriage return and space.
\<close>

definition js_space :: "char \<Rightarrow> bool" where
  "js_space c = (of_char c \<in> {9::nat, 10, 11, 12, 13, 32})"

definition js_trim :: "string \<Rightarrow> string" where
  "js_trim s = rev (dropWhile js_space (rev (dropWhile js_space s)))"

text \<open>
  \<open>handleRunEvaluation\<close> is asynchronous. Its synchronous head validates the form and,
  when the form is complete, sets the status to \<open>loading\<close> and posts to \<open>/evaluate\<close>; the
  rest runs when the request settles. \<open>!evaluateApplicantId\<close> holds for \<open>null\<close> and for
  \<open>0\<close>. The values the continuation uses are the ones the closure captured at the
  click, so the settling step takes them as arguments.
\<close>

definition run_form_incomplete :: "app_state \<Rightarrow> bool" where
  "run_form_incomplete s =
     (evaluateApplicantId s = None \<or> evaluateApplicantId s = Some 0
      \<or> evaluateQuestion s = [] \<or> js_trim (evaluateAnswer s) = [])"

definition handleRunEvaluation_start :: "app_state \<Rightarrow> app_state" where
  "handleRunEvaluation_start s =
     (if run_form_incomplete s then s
      else s\<lparr>evaluateStatus := Loading\<rparr>)"

definition handleRunEvaluation_settle :: "bool \<Rightarrow> int \<Rightarrow> string \<Rightarrow> app_state \<Rightarrow> app_state" where
  "handleRunEvaluation_settle succeeded applicantId question s =
     (if succeeded
      then s\<lparr>selectedApplicantId := Some applicantId,
             selectedQuestionId := Some question,
             isEvaluateOpen := False,
             evaluateStatus := Idle\<rparr>
      else s\<lparr>evaluateStatus := Idle\<rparr>)"

subsection \<open>The modal's controls (src/src/components/EvaluateModal.tsx)\<close>

text \<open>
  The modal is rendered only while \<open>isEvaluateOpen\<close> holds. Its overlay and its X button
  call \<open>onClose\<close>; the Cancel button calls \<open>onClose\<close> and the Run button
  \<open>onRunEvaluation\<close>, both with \<open>disabled={evaluateStatus === 'loading'}\<close>. A disabled
  button dispatches no click. \<open>App\<close> passes \<open>handleCloseEvaluate\<close> as \<open>onClose\<close> and
  \<open>handleRunEvaluation\<close> as \<open>onRunEvaluation\<close>.
\<close>

record evaluate_modal_view =
  cancelDisabled :: bool
  runDisabled :: bool
  runLabel :: string

definition EvaluateModal :: "evaluate_status \<Rightarrow> evaluate_modal_view" where
  "EvaluateModal status =
     \<lparr>cancelDisabled = (status = Loading),
      runDisabled = (status = Loading),
      runLabel = (if status = Loading then ''Running...'' else ''Run assessment'')\<rparr>"

datatype modal_click = OverlayClick | CloseButtonClick | CancelClick | RunClick

fun modal_step :: "app_state \<Rightarrow> modal_click \<Rightarrow> app_state" where
  "modal_step s OverlayClick =
     (if isEvaluateOpen s then handleCloseEvaluate s else s)"
| "modal_step s CloseButtonClick =
     (if isEvaluateOpen s then handleCloseEvaluate s else s)"
| "modal_step s CancelClick =
     (if isEvaluateOpen s \<and> \<not> cancelDisabled (EvaluateModal (evaluateStatus s))
      then handleCloseEvaluate s else s)"
| "modal_step s RunClick =
     (if isEvaluateOpen s \<and> \<not> runDisabled (EvaluateModal (evaluateStatus s))
      then handleRunEvaluation_start s else s)"

subsection \<open>Fetching the answer for a criterion\<close>

text \<open>
  \<open>fetchCriterionAnswer\<close> talks to three endpoints in sequence: a GET of
  \<open>/applicant-answer/{applicantId}/{qId}\<close>, a POST to \<open>/extract-answer\<close> and a POST to
  \<open>/applicant-answer\<close>. The server is outside the program, so what each \<open>fetch\<close> and
  each \<open>response.json()\<close> delivers is an input of the model. A \<open>fetch\<close> either rejects
  (network error) or resolves to a response with its \<open>ok\<close> flag; \<open>json()\<close> either
  rejects, or yields \<open>null\<close>, or yields an object of which the model keeps the fields the
  code reads. A field that is missing, \<open>null\<close> or \<open>undefined\<close> is \<open>None\<close>. The
  JSON key \<open>paragraph\<close> is the field \<open>paragraph_field\<close> (the bare word is reserved).
\<close>

datatype 'a json_body = JsonRejected | JsonNull | JsonObject 'a

datatype 'a fetched = NetworkError | Response bool "'a json_body"

record answer_json =
  answer_text :: "string option"

record lookup_json =
  answer :: "answer_json option"

record extract_json =
  detail :: "string option"
  paragraph_field :: "string option"

record server =
  lookup_response :: "lookup_json fetched"
  extract_response :: "extract_json fetched"
  save_rejects :: bool

text \<open>The requests the function issues, in order, are returned beside the new state.\<close>

datatype request =
    GetApplicantAnswer int string
  | PostExtractAnswer int string
  | PostApplicantAnswer int string string string

text \<open>
  \<open>dbData.answer && dbData.answer.answer_text\<close>: the stored text when the answer object
  is there and its text is a non-empty string.
\<close>

definition stored_answer :: "lookup_json \<Rightarrow> string option" where
  "stored_answer dbData =
     (case answer dbData of
        None \<Rightarrow> None
      | Some a \<Rightarrow>
          (case answer_text a of
             None \<Rightarrow> None
           | Some t \<Rightarrow> if t = [] then None else Some t))"

text \<open>The \<open>finally\<close> block and the \<open>catch\<close> block followed by it.\<close>

definition fetch_finally :: "app_state \<Rightarrow> app_state" where
  "fetch_finally s = s\<lparr>evaluateExtracting := False\<rparr>"

definition fetch_catch :: "app_state \<Rightarrow> app_state" where
  "fetch_catch s = fetch_finally (s\<lparr>evaluateExtractError := ''Failed to fetch/extract answer''\<rparr>)"

text \<open>The part of the \<open>try\<close> block after the database lookup found nothing to use.\<close>

definition extract_and_save :: "server \<Rightarrow> int \<Rightarrow> string \<Rightarrow> app_state \<Rightarrow> app_state \<times> request list" where
  "extract_and_save srv applicantId qId s =
     (case extract_response srv of
        NetworkError \<Rightarrow> (fetch_catch s, [PostExtractAnswer applicantId qId])
      | Response ok body \<Rightarrow>
          if \<not> ok then
            (case body of
               JsonRejected \<Rightarrow> (fetch_catch s, [PostExtractAnswer applicantId qId])
             | JsonNull \<Rightarrow>
                 (fetch_finally (s\<lparr>evaluateExtractError := ''Failed to extract answer'',
                                    evaluateAnswer := []\<rparr>),
                  [PostExtractAnswer applicantId qId])
             | JsonObject err \<Rightarrow>
                 (fetch_finally
                    (s\<lparr>evaluateExtractError :=
                         (case detail err of
                            None \<Rightarrow> ''Failed to extract answer''
                          | Some d \<Rightarrow> if d = [] then ''Failed to extract answer'' else d),
                       evaluateAnswer := []\<rparr>),
                  [PostExtractAnswer applicantId qId]))
          else
            (case (case body of
                     JsonRejected \<Rightarrow> None
                   | JsonNull \<Rightarrow> Some None
                   | JsonObject d \<Rightarrow> Some (paragraph_field d)) of
               None \<Rightarrow> (fetch_catch s, [PostExtractAnswer applicantId qId])
             | Some (Some p) \<Rightarrow>
                 if p = [] then
                   (fetch_finally (s\<lparr>evaluateExtractError := ''No matching section found in PDF.'',
                                      evaluateAnswer := []\<rparr>),
                    [PostExtractAnswer applicantId qId])
                 else if save_rejects srv then
                   (fetch_catch (s\<lparr>evaluateAnswer := p\<rparr>),
                    [PostExtractAnswer applicantId qId,
                     PostApplicantAnswer applicantId qId p ''extracted''])
                 else
                   (fetch_finally (s\<lparr>evaluateAnswer := p\<rparr>),
                    [PostExtractAnswer applicantId qId,
                     PostApplicantAnswer applicantId qId p ''extracted''])
             | Some None \<Rightarrow>
                 (fetch_finally (s\<lparr>evaluateExtractError := ''No matching section found in PDF.'',
                                    evaluateAnswer := []\<rparr>),
                  [PostExtractAnswer applicantId qId])))"

definition fetchCriterionAnswer :: "server \<Rightarrow> int \<Rightarrow> string \<Rightarrow> app_state \<Rightarrow> app_state \<times> request list" where
  "fetchCriterionAnswer srv applicantId qId s0 =
     (let s = s0\<lparr>evaluateExtractError := [], evaluateExtracting := True\<rparr>;
          extraction = (case extract_and_save srv applicantId qId s of
                          (s', reqs) \<Rightarrow> (s', GetApplicantAnswer applicantId qId # reqs))
      in case lookup_response srv of
           NetworkError \<Rightarrow> (fetch_catch s, [GetApplicantAnswer applicantId qId])
         | Response ok body \<Rightarrow>
             if ok then
               (case body of
                  JsonRejected \<Rightarrow> (fetch_catch s, [GetApplicantAnswer applicantId qId])
                | JsonNull \<Rightarrow> (fetch_catch s, [GetApplicantAnswer applicantId qId])
                | JsonObject dbData \<Rightarrow>
                    (case stored_answer dbData of
                       Some t \<Rightarrow>
                         (fetch_finally (s\<lparr>evaluateAnswer := t, evaluateExtracting := False\<rparr>),
                          [GetApplicantAnswer applicantId qId])
                     | None \<Rightarrow> extraction))
             else extraction)"

text \<open>
  What the lookup delivered, as the function sees it: the stored text of an \<open>ok\<close>
  response whose body carries a non-empty \<open>answer.answer_text\<close>.
\<close>

definition lookup_answer :: "server \<Rightarrow> string option" where
  "lookup_answer srv =
     (case lookup_response srv of
        Response True (JsonObject dbData) \<Rightarrow> stored_answer dbData
      | _ \<Rightarrow> None)"

definition is_extract_or_save :: "request \<Rightarrow> bool" where
  "is_extract_or_save r =
     (case r of GetApplicantAnswer a q \<Rightarrow> False | _ \<Rightarrow> True)"

section \<open>The question list of the review panel (src/src/components/ReviewPanel.tsx)\<close>

text \<open>
  An \<open>AssessmentResult\<close> (src/src/types.ts) with the fields the panel reads; the other
  fields (\<open>llm_response\<close>, \<open>parsed_result\<close>, \<open>created_at\<close>) travel with the object and play
  no part in the order.
\<close>

record assessment_result =
  result_id :: int
  applicant_id :: int
  q_id :: string
  question_text :: string
  result_answer_text :: string
  score :: "int option"
  justification :: "string option"

subsection \<open>The sort key\<close>

text \<open>
  \<open>q_id.match(/\d+/)?.[0]\<close>: the regular expression has no flags, so the match is the
  leftmost maximal run of the ASCII digits 0 to 9; without a digit, \<open>match\<close> returns
  \<open>null\<close> and the optional chain yields \<open>undefined\<close>.
\<close>

definition is_digit :: "char \<Rightarrow> bool" where
  "is_digit c = (48 \<le> (of_char c :: nat) \<and> (of_char c :: nat) \<le> 57)"

definition first_digits :: "string \<Rightarrow> string option" where
  "first_digits s =
     (case dropWhile (\<lambda>c. \<not> is_digit c) s of
        [] \<Rightarrow> None
      | d # ds \<Rightarrow> Some (takeWhile is_digit (d # ds)))"

definition digit_value :: "char \<Rightarrow> nat" where
  "digit_value c = of_char c - 48"

definition decimal_value :: "string \<Rightarrow> nat" where
  "decimal_value ds = foldl (\<lambda>n c. 10 * n + digit_value c) 0 ds"

text \<open>
  \<open>Number(...)\<close> of a string of decimal digits is the IEEE 754 binary64 value nearest to
  the decimal value, ties to even, and \<open>Infinity\<close> from \<open>2^1024 - 2^970\<close> on. The values
  that arise here are the non-negative integers a double can hold, and \<open>Infinity\<close>. Up to
  \<open>2^53\<close> every integer is a double; above, a double keeps the leading 53 bits.
\<close>

datatype js_number = Finite nat | PosInfinity

fun bit_length :: "nat \<Rightarrow> nat" where
  "bit_length n = (if n = 0 then 0 else Suc (bit_length (n div 2)))"

declare bit_length.simps [simp del]

definition to_double :: "nat \<Rightarrow> js_number" where
  "to_double n =
     (if n \<le> 2 ^ 53 then Finite n
      else
        let e = bit_length n - 53;
            q = n div 2 ^ e;
            r = n mod 2 ^ e;
            half = 2 ^ (e - 1);
            m = (if half < r \<or> (r = half \<and> odd q) then q + 1 else q)
        in if 2 ^ 1024 \<le> m * 2 ^ e then PosInfinity else Finite (m * 2 ^ e))"

definition MAX_SAFE_INTEGER :: nat where
  "MAX_SAFE_INTEGER = 9007199254740991"

text \<open>
  \<open>Number(q_id.match(/\d+/)?.[0] ?? Number.MAX_SAFE_INTEGER)\<close>: the value of the first
  run of digits, and \<open>2^53 - 1\<close> for a \<open>q_id\<close> without a digit.
\<close>

definition q_number :: "string \<Rightarrow> js_number" where
  "q_number q =
     (case first_digits q of
        None \<Rightarrow> Finite MAX_SAFE_INTEGER
      | Some ds \<Rightarrow> to_double (decimal_value ds))"

subsection \<open>The comparator\<close>

text \<open>
  \<open>Array.prototype.sort\<close> reads the sign of what the comparator returns, so the model
  returns a sign: negative puts \<open>a\<close> first, positive puts \<open>b\<close> first. The difference of two
  distinct doubles that hold integers is never zero, and \<open>Infinity\<close> minus a finite number
  is \<open>Infinity\<close>; \<open>Infinity - Infinity\<close> is not computed, since the comparator takes the
  difference only of numbers that differ.
\<close>

fun js_less :: "js_number \<Rightarrow> js_number \<Rightarrow> bool" where
  "js_less (Finite m) (Finite n) = (m < n)"
| "js_less (Finite m) PosInfinity = True"
| "js_less PosInfinity b = False"

definition js_minus_sign :: "js_number \<Rightarrow> js_number \<Rightarrow> int" where
  "js_minus_sign a b = (if js_less a b then - 1 else if js_less b a then 1 else 0)"

text \<open>
  \<open>String.prototype.localeCompare\<close> is the host's collation: it depends on the locale
  and is no function of the code units alone. The comparator takes it as the parameter
  \<open>localeCompare\<close>, of which the model reads the sign.
\<close>

definition compare_results :: "(string \<Rightarrow> string \<Rightarrow> int) \<Rightarrow> assessment_result \<Rightarrow> assessment_result \<Rightarrow> int" where
  "compare_results localeCompare a b =
     (let aNum = q_number (q_id a);
          bNum = q_number (q_id b)
      in if aNum \<noteq> bNum then js_minus_sign aNum bNum
         else localeCompare (q_id a) (q_id b))"

subsection \<open>Sorting a copy\<close>

text \<open>
  \<open>Array.prototype.sort\<close> is stable, and with a consistent comparator its result is the
  one stable arrangement in the comparator's order, whatever algorithm the engine runs.
  The model is the stable insertion sort: an element goes in front of the first element
  of the sorted rest that does not come strictly before it.
\<close>

fun insert_by :: "('a \<Rightarrow> 'a \<Rightarrow> int) \<Rightarrow> 'a \<Rightarrow> 'a list \<Rightarrow> 'a list" where
  "insert_by cmp x [] = [x]"
| "insert_by cmp x (y # ys) =
     (if cmp x y \<le> 0 then x # y # ys else y # insert_by cmp x ys)"

definition sort_by :: "('a \<Rightarrow> 'a \<Rightarrow> int) \<Rightarrow> 'a list \<Rightarrow> 'a list" where
  "sort_by cmp xs = foldr (insert_by cmp) xs []"

text \<open>
  Arrays are objects: \<open>sort\<close> rearranges the array it is called on and returns that same
  array, and the spread \<open>[...xs]\<close> allocates a new one. The store is the list of the
  arrays allocated so far, a reference is an index into it.
\<close>

type_synonym 'a store = "'a list list"

definition array_spread :: "'a store \<Rightarrow> nat \<Rightarrow> 'a store \<times> nat" where
  "array_spread h a = (h @ [h ! a], length h)"

definition array_sort :: "('a \<Rightarrow> 'a \<Rightarrow> int) \<Rightarrow> 'a store \<Rightarrow> nat \<Rightarrow> 'a store \<times> nat" where
  "array_sort cmp h a = (h[a := sort_by cmp (h ! a)], a)"

subsection \<open>The rendered list\<close>

record question_button =
  button_key :: string
  button_active :: bool
  button_label :: string

datatype sidebar_list = NoAssessmentsYet | QuestionButtons "question_button list"

definition render_button :: "string option \<Rightarrow> assessment_result \<Rightarrow> question_button" where
  "render_button selectedQuestion assessment =
     \<lparr>button_key = q_id assessment,
      button_active = (selectedQuestion = Some (q_id assessment)),
      button_label = ''Question '' @
        (case first_digits (q_id assessment) of
           None \<Rightarrow> q_id assessment
         | Some labelNumber \<Rightarrow> labelNumber)\<rparr>"

text \<open>
  The list the panel displays, as the sorted array before \<open>map\<close> turns each element into
  its button, together with the store after the render. \<open>assessmentResults\<close> is the
  reference the panel received.
\<close>

definition displayed_results ::
  "(string \<Rightarrow> string \<Rightarrow> int) \<Rightarrow> assessment_result store \<Rightarrow> nat \<Rightarrow> assessment_result store \<times> assessment_result list" where
  "displayed_results localeCompare h assessmentResults =
     (if length (h ! assessmentResults) = 0 then (h, [])
      else
        case array_spread h assessmentResults of
          (h1, copied) \<Rightarrow>
            (case array_sort (compare_results localeCompare) h1 copied of
               (h2, sorted_ref) \<Rightarrow> (h2, h2 ! sorted_ref)))"

definition sidebar :: "(string \<Rightarrow> string \<Rightarrow> int) \<Rightarrow> string option \<Rightarrow> assessment_result store \<Rightarrow> nat \<Rightarrow> sidebar_list" where
  "sidebar localeCompare selectedQuestion h assessmentResults =
     (if length (h ! assessmentResults) = 0 then NoAssessmentsYet
      else QuestionButtons
             (map (render_button selectedQuestion)
                  (snd (displayed_results localeCompare h assessmentResults))))"

text \<open>
  What the host must guarantee of \<open>localeCompare\<close> for \<open>sort\<close> to have a defined result
  (ECMAScript's consistent comparator): swapping the arguments swaps the sign, and the
  order is transitive.
\<close>

definition consistent_collation :: "(string \<Rightarrow> string \<Rightarrow> int) \<Rightarrow> bool" where
  "consistent_collation localeCompare =
     ((\<forall>x y. (localeCompare x y < 0) = (0 < localeCompare y x))
      \<and> (\<forall>x y z. localeCompare x y \<le> 0 \<and> localeCompare y z \<le> 0 \<longrightarrow> localeCompare x z \<le> 0))"

text \<open>
  The order of the displayed list: ascending by the number of the \<open>q_id\<close>, and by
  \<open>localeCompare\<close> of the whole \<open>q_id\<close> among equal numbers.
\<close>

definition displayed_before :: "(string \<Rightarrow> string \<Rightarrow> int) \<Rightarrow> assessment_result \<Rightarrow> assessment_result \<Rightarrow> bool" where
  "displayed_before localeCompare a b =
     (js_less (q_number (q_id a)) (q_number (q_id b))
      \<or> (q_number (q_id a) = q_number (q_id b) \<and> localeCompare (q_id a) (q_id b) \<le> 0))"

text \<open>
  A collation to run the model with: the comparison of two strings code unit by code
  unit, a prefix before its extensions.
\<close>

fun code_unit_compare :: "string \<Rightarrow> string \<Rightarrow> int" where
  "code_unit_compare [] [] = 0"
| "code_unit_compare [] (y # ys) = - 1"
| "code_unit_compare (x # xs) [] = 1"
| "code_unit_compare (x # xs) (y # ys) =
     (if (of_char x :: nat) < of_char y then - 1
      else if (of_char y :: nat) < of_char x then 1
      else code_unit_compare xs ys)"

section \<open>The section locator of the extraction service\<close>

text \<open>
  The service that answers \<open>/extract-answer\<close> (\<open>service/main.py\<close>,
  \<open>_extract_criterion_paragraph\<close>) is not among the sources; the definitions of this
  section follow the specification's description of it (its sections 3, 4.6 and 7).
\<close>

text \<open>Modelled from the spec: the data model of section 3 (the service's types are missing).\<close>

record search_spec =
  header_label :: string
  auto_increment :: bool
  question_number :: string

record page_text_result =
  page_number :: nat
  raw_text :: string
  char_count :: nat
  is_scanned :: bool

record extracted_answer =
  paragraph_text :: string
  source_page :: nat
  confidence_note :: string

text \<open>
  Modelled from the spec: the outcomes of section 7 (the service's error types are
  missing). \<open>NotFound\<close> is a result of \<open>locate\<close>; the other three are failures of the
  extraction that feeds it.
\<close>

datatype locate_outcome = Located extracted_answer | NotFound

datatype engine_error = OCRUnavailable | OCRTranscriptionFailed | CacheStorageError

text \<open>
  Modelled from the spec: the header pattern of section 4.6 (the pattern construction of
  \<open>_extract_criterion_paragraph\<close> is missing). With \<open>auto_increment\<close> the label and the
  number are tried in both orders, "Criterion 2" and "2. Criterion", as the settings page
  (src/src/Settings.tsx) announces them; without it the label alone is searched. The
  match ignores the case of the ASCII letters: two characters match when their codes
  agree after the capitals A to Z have been moved onto the small letters.
\<close>

definition lower_code :: "char \<Rightarrow> nat" where
  "lower_code c =
     (if 65 \<le> (of_char c :: nat) \<and> (of_char c :: nat) \<le> 90
      then of_char c + 32 else of_char c)"

definition header_patterns :: "search_spec \<Rightarrow> string list" where
  "header_patterns spec =
     (if auto_increment spec
      then [header_label spec @ '' '' @ question_number spec,
            question_number spec @ ''. '' @ header_label spec]
      else [header_label spec])"

definition starts_with_ci :: "string \<Rightarrow> string \<Rightarrow> bool" where
  "starts_with_ci pat txt = (map lower_code (take (length pat) txt) = map lower_code pat)"

definition strip_header :: "string list \<Rightarrow> string \<Rightarrow> string option" where
  "strip_header pats txt =
     (case find (\<lambda>p. starts_with_ci p txt) pats of
        None \<Rightarrow> None
      | Some p \<Rightarrow> Some (drop (length p) txt))"

text \<open>The text right after the first occurrence of a header in a page, if there is one.\<close>

fun after_header :: "string list \<Rightarrow> string \<Rightarrow> string option" where
  "after_header pats [] = strip_header pats []"
| "after_header pats (c # cs) =
     (case strip_header pats (c # cs) of
        Some rest \<Rightarrow> Some rest
      | None \<Rightarrow> after_header pats cs)"

text \<open>
  A page contains a matching header when one of the patterns occurs somewhere in its
  text, whatever the case of its letters.
\<close>

definition contains_header :: "string list \<Rightarrow> string \<Rightarrow> bool" where
  "contains_header pats txt =
     (\<exists>before rest p. p \<in> set pats \<and> txt = before @ rest \<and> starts_with_ci p rest)"

text \<open>
  Modelled from the spec: the end of the paragraph (section 4.6; the boundary rule of
  \<open>_extract_criterion_paragraph\<close> is missing). The paragraph ends at the next header of
  the same family, the label with any number in either order (the label alone without
  \<open>auto_increment\<close>), or at the end of the pages. The answer carries the paragraph
  without the white space around it (the ASCII white space that \<open>js_trim\<close> strips).
\<close>

definition family_header_at :: "search_spec \<Rightarrow> string \<Rightarrow> bool" where
  "family_header_at spec txt =
     (if auto_increment spec
      then (starts_with_ci (header_label spec @ '' '') txt
              \<and> takeWhile is_digit (drop (length (header_label spec) + 1) txt) \<noteq> [])
           \<or> (takeWhile is_digit txt \<noteq> []
              \<and> starts_with_ci (''. '' @ header_label spec) (dropWhile is_digit txt))
      else starts_with_ci (header_label spec) txt)"

fun until_next_header :: "search_spec \<Rightarrow> string \<Rightarrow> string" where
  "until_next_header spec [] = []"
| "until_next_header spec (c # cs) =
     (if family_header_at spec (c # cs) then [] else c # until_next_header spec cs)"

text \<open>
  Modelled from the spec: \<open>SectionLocator.locate\<close> (section 4.6; the function is
  missing). The pages are scanned in ascending order; the first page with a header
  gives the source page, the paragraph starts right after that header and runs through
  the following pages up to the next header. A range without a header gives \<open>NotFound\<close>.
  The spec does not say what the confidence note holds; the model leaves it empty.
\<close>

fun locate :: "page_text_result list \<Rightarrow> search_spec \<Rightarrow> locate_outcome" where
  "locate [] spec = NotFound"
| "locate (p # ps) spec =
     (case after_header (header_patterns spec) (raw_text p) of
        None \<Rightarrow> locate ps spec
      | Some rest \<Rightarrow>
          Located
            \<lparr>paragraph_text = js_trim (until_next_header spec (rest @ concat (map raw_text ps))),
             source_page = page_number p,
             confidence_note = []\<rparr>)"

text \<open>
  Modelled from the spec: one extraction request (sections 4.5 and 7; the endpoint is
  missing). A failure of the hybrid extraction aborts the request with its error;
  otherwise the request ends with the outcome of \<open>locate\<close>.
\<close>

definition locate_request :: "engine_error + page_text_result list \<Rightarrow> search_spec \<Rightarrow> engine_error + locate_outcome" where
  "locate_request pages spec =
     (case pages of
        Inl failure \<Rightarrow> Inl failure
      | Inr ps \<Rightarrow> Inr (locate ps spec))"

subsection \<open>What the frontend makes of the response\<close>

text \<open>
  The three readings \<open>fetchCriterionAnswer\<close> makes of what the server sent: the lookup
  had nothing to use and did not throw; the extraction's body has no paragraph
  (\<open>data?.paragraph\<close> is falsy); the extraction's body has an error detail
  (\<open>error?.detail\<close> is truthy).
\<close>

definition lookup_misses :: "server \<Rightarrow> bool" where
  "lookup_misses srv =
     (case lookup_response srv of
        NetworkError \<Rightarrow> False
      | Response ok body \<Rightarrow>
          if ok then
            (case body of
               JsonObject dbData \<Rightarrow> stored_answer dbData = None
             | _ \<Rightarrow> False)
          else True)"

definition without_paragraph :: "extract_json json_body \<Rightarrow> bool" where
  "without_paragraph body =
     (case body of
        JsonRejected \<Rightarrow> False
      | JsonNull \<Rightarrow> True
      | JsonObject d \<Rightarrow> paragraph_field d = None \<or> paragraph_field d = Some [])"

definition server_detail :: "extract_json json_body \<Rightarrow> string option" where
  "server_detail body =
     (case body of
        JsonObject err \<Rightarrow>
          (case detail err of
             None \<Rightarrow> None
           | Some d \<Rightarrow> if d = [] then None else Some d)
      | _ \<Rightarrow> None)"

section \<open>The OCR cache of the extraction service\<close>

text \<open>
  The cache table is declared in \<open>service/models.py\<close>, which is not among the sources;
  src/CHANGES_SUMMARY.md quotes the declaration of its rows (\<open>PDFOCRCache\<close>). The row
  identifier is assigned by the database and plays no part here.
\<close>

record PDFOCRCache =
  page_hash :: string
  pdf_path :: string
  page_num :: nat
  extracted_text :: string
  model_used :: string
  created_at :: nat

text \<open>
  Modelled from the spec: \<open>OCRCache.lookup\<close> and \<open>OCRCache.store\<close> (section 4.3; the
  code that reads and writes the table is in \<open>service/ocr_utils.py\<close>, which is missing).
  The table is the list of its rows in the order they were inserted. \<open>lookup\<close> returns
  the entry stored under a hash or reports its absence; \<open>store\<close> inserts only: when an
  entry for the hash exists already, the table is left as it is.
\<close>

type_synonym ocr_cache = "PDFOCRCache list"

definition lookup :: "ocr_cache \<Rightarrow> string \<Rightarrow> PDFOCRCache option" where
  "lookup cache h = find (\<lambda>row. page_hash row = h) cache"

definition store :: "ocr_cache \<Rightarrow> PDFOCRCache \<Rightarrow> ocr_cache" where
  "store cache entry =
     (case lookup cache (page_hash entry) of
        Some existing \<Rightarrow> cache
      | None \<Rightarrow> cache @ [entry])"

section \<open>Sample inputs\<close>

definition loading_modal_state :: app_state where
  "loading_modal_state =
     \<lparr>isEvaluateOpen = True, evaluateVendor = ''Vendor A'',
      evaluateApplicantId = Some 1, evaluateQuestion = ''Q2'',
      evaluateAnswer = ''We use AES-256 encryption.'', evaluateStatus = Loading,
      evaluateExtracting = False, evaluateExtractError = [],
      selectedApplicantId = None, selectedQuestionId = None\<rparr>"

definition initial_state :: app_state where
  "initial_state =
     \<lparr>isEvaluateOpen = True, evaluateVendor = ''Vendor A'',
      evaluateApplicantId = Some 7, evaluateQuestion = ''Q2'',
      evaluateAnswer = [], evaluateStatus = Idle,
      evaluateExtracting = False, evaluateExtractError = ''old error'',
      selectedApplicantId = None, selectedQuestionId = None\<rparr>"

definition server_with_stored_answer :: server where
  "server_with_stored_answer =
     \<lparr>lookup_response = Response True (JsonObject \<lparr>answer = Some \<lparr>answer_text = Some ''Stored text''\<rparr>\<rparr>),
      extract_response = Response True (JsonObject \<lparr>detail = None, paragraph_field = Some ''We use AES-256 encryption.''\<rparr>),
      save_rejects = False\<rparr>"

definition server_without_stored_answer :: server where
  "server_without_stored_answer =
     \<lparr>lookup_response = Response True (JsonObject \<lparr>answer = None\<rparr>),
      extract_response = Response True (JsonObject \<lparr>detail = None, paragraph_field = Some ''We use AES-256 encryption.''\<rparr>),
      save_rejects = False\<rparr>"

definition result_for :: "int \<Rightarrow> string \<Rightarrow> assessment_result" where
  "result_for n q =
     \<lparr>result_id = n, applicant_id = 7, q_id = q,
      question_text = ''Question text'', result_answer_text = ''We use AES-256 encryption.'',
      score = Some 4, justification = None\<rparr>"

definition sample_results :: "assessment_result list" where
  "sample_results = [result_for 1 ''Q10'', result_for 2 ''abc'', result_for 3 ''Q2'', result_for 4 ''2b'']"

definition criterion2 :: search_spec where
  "criterion2 = \<lparr>header_label = ''Criterion'', auto_increment = True, question_number = ''2''\<rparr>"

definition native_page :: "nat \<Rightarrow> string \<Rightarrow> page_text_result" where
  "native_page n txt = \<lparr>page_number = n, raw_text = txt, char_count = length txt, is_scanned = False\<rparr>"

definition server_error_with_detail :: server where
  "server_error_with_detail =
     \<lparr>lookup_response = Response True (JsonObject \<lparr>answer = None\<rparr>),
      extract_response = Response False
        (JsonObject \<lparr>detail = Some ''OCR is not available'', paragraph_field = None\<rparr>),
      save_rejects = False\<rparr>"

definition server_error_without_detail :: server where
  "server_error_without_detail =
     \<lparr>lookup_response = Response True (JsonObject \<lparr>answer = None\<rparr>),
      extract_response = Response False (JsonObject \<lparr>detail = None, paragraph_field = None\<rparr>),
      save_rejects = False\<rparr>"

definition server_without_section :: server where
  "server_without_section =
     \<lparr>lookup_response = Response False JsonNull,
      extract_response = Response True (JsonObject \<lparr>detail = None, paragraph_field = None\<rparr>),
      save_rejects = False\<rparr>"

definition first_transcription :: PDFOCRCache where
  "first_transcription =
     \<lparr>page_hash = ''3f2a9c'', pdf_path = ''uploads/Candidate123.pdf'', page_num = 1,
      extracted_text = ''Team Management approach: weekly steering board.'',
      model_used = ''gpt-4o'', created_at = 1700000000\<rparr>"

definition second_transcription :: PDFOCRCache where
  "second_transcription =
     \<lparr>page_hash = ''3f2a9c'', pdf_path = ''uploads/Candidate123.pdf'', page_num = 1,
      extracted_text = ''Team Management approach - weekly steering board'',
      model_used = ''gpt-4o'', created_at = 1700000500\<rparr>"

definition other_page :: PDFOCRCache where
  "other_page =
     \<lparr>page_hash = ''b81d07'', pdf_path = ''uploads/Candidate123.pdf'', page_num = 2,
      extracted_text = ''External Integration and Dataflows'',
      model_used = ''gpt-4o'', created_at = 1700000100\<rparr>"

section \<open>The modal stays open while a request is in flight\<close>

lemma modal_step_loading: "evaluateStatus s = Loading \<Longrightarrow> modal_step s c = s"
  by (cases c) (simp_all add: handleCloseEvaluate_def EvaluateModal_def)

lemma modal_steps_loading: "evaluateStatus s = Loading \<Longrightarrow> foldl modal_step s cs = s"
  by (induction cs) (simp_all add: modal_step_loading)

text \<open>
  C9. While an evaluation request is in flight (\<open>evaluateStatus\<close> is \<open>loading\<close>),
  \<open>handleCloseEvaluate\<close> returns the state unchanged, the Cancel and Run buttons are
  disabled, and no sequence of clicks on the modal's overlay, X, Cancel and Run controls
  changes the state: an open modal stays open and the status stays \<open>loading\<close> until the
  request settles. The other two writers of \<open>isEvaluateOpen\<close> do not dismiss it either:
  \<open>handleOpenEvaluate\<close> sets it, and the continuation of \<open>handleRunEvaluation\<close> runs
  when the request settles and ends the \<open>loading\<close> status.
\<close>

theorem modal_not_dismissed_while_loading:
  assumes "evaluateStatus s = Loading"
  shows "handleCloseEvaluate s = s
       \<and> cancelDisabled (EvaluateModal (evaluateStatus s))
       \<and> runDisabled (EvaluateModal (evaluateStatus s))
       \<and> isEvaluateOpen (foldl modal_step s cs) = isEvaluateOpen s
       \<and> evaluateStatus (foldl modal_step s cs) = Loading
       \<and> isEvaluateOpen (handleOpenEvaluate vendor applicantId s)
       \<and> evaluateStatus (handleRunEvaluation_settle succeeded applicantId question s) = Idle"
  using assms
  by (simp add: modal_steps_loading handleCloseEvaluate_def EvaluateModal_def
        handleOpenEvaluate_def handleRunEvaluation_settle_def)

text \<open>
  The theorem at an open modal with a request in flight and one click on each control;
  the last conjuncts show the guard at work: the same state with the status \<open>idle\<close> is
  closed by \<open>handleCloseEvaluate\<close>, and the settling of the request closes the modal
  when the evaluation succeeded and leaves it open when it failed.
\<close>

theorem modal_not_dismissed_while_loading_witness:
  "evaluateStatus loading_modal_state = Loading
   \<and> handleCloseEvaluate loading_modal_state = loading_modal_state
   \<and> cancelDisabled (EvaluateModal (evaluateStatus loading_modal_state))
   \<and> runDisabled (EvaluateModal (evaluateStatus loading_modal_state))
   \<and> isEvaluateOpen (foldl modal_step loading_modal_state
         [OverlayClick, CloseButtonClick, CancelClick, RunClick])
   \<and> evaluateStatus (foldl modal_step loading_modal_state
         [OverlayClick, CloseButtonClick, CancelClick, RunClick]) = Loading
   \<and> \<not> isEvaluateOpen (handleCloseEvaluate (loading_modal_state\<lparr>evaluateStatus := Idle\<rparr>))
   \<and> \<not> isEvaluateOpen (handleRunEvaluation_settle True 1 ''Q2'' loading_modal_state)
   \<and> isEvaluateOpen (handleRunEvaluation_settle False 1 ''Q2'' loading_modal_state)"
proof -
  have loading: "evaluateStatus loading_modal_state = Loading"
    by (simp add: loading_modal_state_def)
  have opened: "isEvaluateOpen loading_modal_state"
    by (simp add: loading_modal_state_def)
  have closes: "\<not> isEvaluateOpen (handleCloseEvaluate (loading_modal_state\<lparr>evaluateStatus := Idle\<rparr>))"
    by (simp add: handleCloseEvaluate_def)
  have settles: "\<not> isEvaluateOpen (handleRunEvaluation_settle True 1 ''Q2'' loading_modal_state)"
      "isEvaluateOpen (handleRunEvaluation_settle False 1 ''Q2'' loading_modal_state)"
    by (simp_all add: handleRunEvaluation_settle_def loading_modal_state_def)
  from modal_not_dismissed_while_loading [OF loading,
      of "[OverlayClick, CloseButtonClick, CancelClick, RunClick]"]
  show ?thesis using loading opened closes settles by simp
qed

section \<open>A stored answer short-circuits the extraction\<close>

lemma lookup_answer_short_circuit:
  "lookup_answer srv = Some t \<Longrightarrow>
   fetchCriterionAnswer srv a q s =
     (s\<lparr>evaluateExtractError := [], evaluateExtracting := False, evaluateAnswer := t\<rparr>,
      [GetApplicantAnswer a q])"
  by (auto simp: lookup_answer_def fetchCriterionAnswer_def fetch_finally_def Let_def
       split: fetched.splits json_body.splits bool.splits option.splits)

lemma lookup_answer_nonempty: "lookup_answer srv = Some t \<Longrightarrow> t \<noteq> []"
  by (auto simp: lookup_answer_def stored_answer_def
       split: fetched.splits json_body.splits bool.splits option.splits if_splits)

lemma extract_and_save_requests:
  "snd (extract_and_save srv a q s) = [PostExtractAnswer a q]
   \<or> (\<exists>p. p \<noteq> [] \<and> snd (extract_and_save srv a q s) =
          [PostExtractAnswer a q, PostApplicantAnswer a q p ''extracted''])"
  by (auto simp: extract_and_save_def split: fetched.splits json_body.splits option.splits)

lemma fetch_requests:
  "snd (fetchCriterionAnswer srv a q s) = [GetApplicantAnswer a q]
   \<or> (lookup_answer srv = None \<and>
       snd (fetchCriterionAnswer srv a q s) =
         GetApplicantAnswer a q #
         snd (extract_and_save srv a q (s\<lparr>evaluateExtractError := [], evaluateExtracting := True\<rparr>)))"
  by (auto simp: lookup_answer_def fetchCriterionAnswer_def Let_def
       split: fetched.splits json_body.splits bool.splits option.splits prod.splits)

text \<open>
  C8. When the applicant-answer lookup returns an \<open>ok\<close> response whose answer carries a
  non-empty \<open>answer_text\<close>, \<open>fetchCriterionAnswer\<close> sets the evaluate answer to that text
  and returns having issued the lookup only: no POST to \<open>/extract-answer\<close> and no save.
  Conversely, every extraction or save the function issues happens with no stored answer,
  and a save is always the save of the extracted paragraph with source \<open>extracted\<close>,
  issued right after the extraction.
\<close>

theorem stored_answer_short_circuits_extraction:
  "(lookup_answer srv = Some t \<longrightarrow>
      t \<noteq> [] \<and>
      fetchCriterionAnswer srv a q s =
        (s\<lparr>evaluateExtractError := [], evaluateExtracting := False, evaluateAnswer := t\<rparr>,
         [GetApplicantAnswer a q]))
   \<and> (\<forall>r \<in> set (snd (fetchCriterionAnswer srv a q s)).
         is_extract_or_save r \<longrightarrow> lookup_answer srv = None)
   \<and> (\<forall>a' q' p src.
         PostApplicantAnswer a' q' p src \<in> set (snd (fetchCriterionAnswer srv a q s)) \<longrightarrow>
           src = ''extracted'' \<and> lookup_answer srv = None \<and>
           snd (fetchCriterionAnswer srv a q s) =
             [GetApplicantAnswer a q, PostExtractAnswer a q,
              PostApplicantAnswer a q p ''extracted''])"
proof (intro conjI impI ballI allI)
  assume "lookup_answer srv = Some t"
  then show "t \<noteq> []" by (rule lookup_answer_nonempty)
next
  assume "lookup_answer srv = Some t"
  then show "fetchCriterionAnswer srv a q s =
        (s\<lparr>evaluateExtractError := [], evaluateExtracting := False, evaluateAnswer := t\<rparr>,
         [GetApplicantAnswer a q])"
    by (rule lookup_answer_short_circuit)
next
  fix r
  assume "r \<in> set (snd (fetchCriterionAnswer srv a q s))" and "is_extract_or_save r"
  with fetch_requests [of srv a q s] show "lookup_answer srv = None"
    by (auto simp: is_extract_or_save_def)
next
  fix a' q' p src
  assume m: "PostApplicantAnswer a' q' p src \<in> set (snd (fetchCriterionAnswer srv a q s))"
  from m fetch_requests [of srv a q s]
  have none: "lookup_answer srv = None"
    and eq: "snd (fetchCriterionAnswer srv a q s) =
         GetApplicantAnswer a q #
         snd (extract_and_save srv a q (s\<lparr>evaluateExtractError := [], evaluateExtracting := True\<rparr>))"
    by auto
  from m eq extract_and_save_requests [of srv a q "s\<lparr>evaluateExtractError := [], evaluateExtracting := True\<rparr>"]
  have "src = ''extracted'' \<and> snd (fetchCriterionAnswer srv a q s) =
             [GetApplicantAnswer a q, PostExtractAnswer a q,
              PostApplicantAnswer a q p ''extracted'']"
    by auto
  with none show "src = ''extracted''" and "lookup_answer srv = None"
    and "snd (fetchCriterionAnswer srv a q s) =
             [GetApplicantAnswer a q, PostExtractAnswer a q,
              PostApplicantAnswer a q p ''extracted'']"
    by auto
qed

text \<open>
  The theorem at a server that has the answer stored, beside a server that has not: there
  the function extracts and saves.
\<close>

theorem stored_answer_short_circuits_extraction_witness:
  "lookup_answer server_with_stored_answer = Some ''Stored text''
   \<and> fetchCriterionAnswer server_with_stored_answer 7 ''Q2'' initial_state =
       (initial_state\<lparr>evaluateExtractError := [], evaluateExtracting := False,
                       evaluateAnswer := ''Stored text''\<rparr>,
        [GetApplicantAnswer 7 ''Q2''])
   \<and> lookup_answer server_without_stored_answer = None
   \<and> snd (fetchCriterionAnswer server_without_stored_answer 7 ''Q2'' initial_state) =
       [GetApplicantAnswer 7 ''Q2'', PostExtractAnswer 7 ''Q2'',
        PostApplicantAnswer 7 ''Q2'' ''We use AES-256 encryption.'' ''extracted'']"
proof -
  have found: "lookup_answer server_with_stored_answer = Some ''Stored text''"
    by (simp add: lookup_answer_def server_with_stored_answer_def stored_answer_def)
  have missing: "lookup_answer server_without_stored_answer = None"
    by (simp add: lookup_answer_def server_without_stored_answer_def stored_answer_def)
  have extracted: "snd (fetchCriterionAnswer server_without_stored_answer 7 ''Q2'' initial_state) =
       [GetApplicantAnswer 7 ''Q2'', PostExtractAnswer 7 ''Q2'',
        PostApplicantAnswer 7 ''Q2'' ''We use AES-256 encryption.'' ''extracted'']"
    by (simp add: fetchCriterionAnswer_def extract_and_save_def
          server_without_stored_answer_def stored_answer_def Let_def)
  from stored_answer_short_circuits_extraction
         [of server_with_stored_answer "''Stored text''" 7 "''Q2''" initial_state]
  show ?thesis using found missing extracted by simp
qed

section \<open>The order of the review panel's question list\<close>

lemma mset_insert_by: "mset (insert_by cmp x xs) = add_mset x (mset xs)"
  by (induction xs) simp_all

lemma mset_sort_by: "mset (sort_by cmp xs) = mset xs"
  unfolding sort_by_def by (induction xs) (simp_all add: mset_insert_by)

lemma set_insert_by: "set (insert_by cmp x xs) = insert x (set xs)"
  by (induction xs) auto

lemma sorted_insert_by:
  assumes total: "\<And>a b. \<not> cmp a b \<le> 0 \<Longrightarrow> cmp b a \<le> 0"
    and trans: "\<And>a b c. cmp a b \<le> 0 \<Longrightarrow> cmp b c \<le> 0 \<Longrightarrow> cmp a c \<le> 0"
    and sorted: "sorted_wrt (\<lambda>a b. cmp a b \<le> 0) xs"
  shows "sorted_wrt (\<lambda>a b. cmp a b \<le> 0) (insert_by cmp x xs)"
  using sorted
proof (induction xs)
  case Nil
  then show ?case by simp
next
  case (Cons y ys)
  show ?case
  proof (cases "cmp x y \<le> 0")
    case True
    from Cons.prems have "\<forall>z\<in>set ys. cmp y z \<le> 0" by simp
    with True have "\<forall>z\<in>set ys. cmp x z \<le> 0" by (blast intro: trans)
    with True Cons.prems show ?thesis by simp
  next
    case False
    then have "cmp y x \<le> 0" by (rule total)
    moreover from Cons.prems have tl: "sorted_wrt (\<lambda>a b. cmp a b \<le> 0) ys"
      and hd: "\<forall>z\<in>set ys. cmp y z \<le> 0" by simp_all
    moreover from tl have "sorted_wrt (\<lambda>a b. cmp a b \<le> 0) (insert_by cmp x ys)"
      by (rule Cons.IH)
    ultimately show ?thesis using False by (simp add: set_insert_by)
  qed
qed

lemma sorted_sort_by:
  assumes total: "\<And>a b. \<not> cmp a b \<le> 0 \<Longrightarrow> cmp b a \<le> 0"
    and trans: "\<And>a b c. cmp a b \<le> 0 \<Longrightarrow> cmp b c \<le> 0 \<Longrightarrow> cmp a c \<le> 0"
  shows "sorted_wrt (\<lambda>a b. cmp a b \<le> 0) (sort_by cmp xs)"
  unfolding sort_by_def
  by (induction xs) (simp_all add: sorted_insert_by [OF total trans])

lemma js_less_irrefl: "\<not> js_less a a"
  by (cases a) simp_all

lemma js_less_trans: "js_less a b \<Longrightarrow> js_less b c \<Longrightarrow> js_less a c"
  by (cases a; cases b; cases c) simp_all

lemma js_less_linear: "js_less a b \<or> a = b \<or> js_less b a"
  by (cases a; cases b) auto

lemma js_less_asym: "js_less a b \<Longrightarrow> \<not> js_less b a"
  by (cases a; cases b) auto

lemma compare_results_le:
  "(compare_results lc a b \<le> 0) = displayed_before lc a b"
  using js_less_linear [of "q_number (q_id a)" "q_number (q_id b)"]
    js_less_asym [of "q_number (q_id a)" "q_number (q_id b)"]
    js_less_irrefl [of "q_number (q_id a)"]
  by (auto simp: compare_results_def displayed_before_def js_minus_sign_def Let_def)

lemma displayed_before_total:
  assumes "consistent_collation lc" and "\<not> displayed_before lc a b"
  shows "displayed_before lc b a"
proof -
  from assms(1) have sw: "(lc (q_id a) (q_id b) < 0) = (0 < lc (q_id b) (q_id a))"
    and sw': "(lc (q_id b) (q_id a) < 0) = (0 < lc (q_id a) (q_id b))"
    by (simp_all add: consistent_collation_def)
  from assms(2) sw sw' js_less_linear [of "q_number (q_id a)" "q_number (q_id b)"]
  show ?thesis by (auto simp: displayed_before_def)
qed

lemma displayed_before_trans:
  assumes "consistent_collation lc" and "displayed_before lc a b" and "displayed_before lc b c"
  shows "displayed_before lc a c"
proof -
  from assms(1) have tr: "lc (q_id a) (q_id b) \<le> 0 \<Longrightarrow> lc (q_id b) (q_id c) \<le> 0 \<Longrightarrow> lc (q_id a) (q_id c) \<le> 0"
    unfolding consistent_collation_def by blast
  from assms(2,3) tr show ?thesis
    by (auto simp: displayed_before_def dest: js_less_trans)
qed

lemma sorted_compare_results:
  assumes "consistent_collation lc"
  shows "sorted_wrt (displayed_before lc) (sort_by (compare_results lc) xs)"
proof -
  have "sorted_wrt (\<lambda>a b. compare_results lc a b \<le> 0) (sort_by (compare_results lc) xs)"
  proof (rule sorted_sort_by)
    fix a b
    assume "\<not> compare_results lc a b \<le> 0"
    then show "compare_results lc b a \<le> 0"
      by (simp add: compare_results_le displayed_before_total [OF assms])
  next
    fix a b c
    assume "compare_results lc a b \<le> 0" and "compare_results lc b c \<le> 0"
    then show "compare_results lc a c \<le> 0"
      unfolding compare_results_le by (rule displayed_before_trans [OF assms])
  qed
  then show ?thesis by (simp add: compare_results_le)
qed

lemma displayed_results_eq:
  "snd (displayed_results lc h a) = sort_by (compare_results lc) (h ! a)"
  by (simp add: displayed_results_def array_spread_def array_sort_def sort_by_def)

lemma displayed_results_store:
  "i < length h \<Longrightarrow> fst (displayed_results lc h a) ! i = h ! i"
  by (simp add: displayed_results_def array_spread_def array_sort_def nth_append)

lemma code_unit_compare_trans:
  "code_unit_compare x y \<le> 0 \<Longrightarrow> code_unit_compare y z \<le> 0 \<Longrightarrow> code_unit_compare x z \<le> 0"
proof (induction x y arbitrary: z rule: code_unit_compare.induct)
  case 1
  then show ?case by simp
next
  case (2 y ys)
  then show ?case by (cases z) simp_all
next
  case (3 x xs)
  then show ?case by simp
next
  case (4 x xs y ys)
  show ?case
  proof (cases z)
    case Nil
    with 4 show ?thesis by simp
  next
    case (Cons c cs)
    show ?thesis
    proof (cases "(of_char x :: nat) < of_char y")
      case True
      from "4.prems"(2) Cons have "\<not> (of_char c :: nat) < of_char y"
        by (simp split: if_splits)
      with True have "(of_char x :: nat) < of_char c" by linarith
      with Cons show ?thesis by simp
    next
      case False
      with "4.prems"(1) have xy: "(of_char x :: nat) = of_char y" and r1: "code_unit_compare xs ys \<le> 0"
        by (simp_all split: if_splits)
      show ?thesis
      proof (cases "(of_char y :: nat) < of_char c")
        case True
        with xy have "(of_char x :: nat) < of_char c" by simp
        with Cons show ?thesis by simp
      next
        case F2: False
        with "4.prems"(2) Cons have yc: "(of_char y :: nat) = of_char c" and r2: "code_unit_compare ys cs \<le> 0"
          by (simp_all split: if_splits)
        from False xy have "code_unit_compare xs cs \<le> 0"
          using "4.IH" [OF _ _ r1 r2] by simp
        moreover from xy yc have "x = c" by simp
        ultimately show ?thesis using Cons by simp
      qed
    qed
  qed
qed

lemma code_unit_compare_swap: "(code_unit_compare x y < 0) = (0 < code_unit_compare y x)"
  by (induction x y rule: code_unit_compare.induct) auto

lemma code_unit_compare_consistent: "consistent_collation code_unit_compare"
  unfolding consistent_collation_def
proof (intro conjI allI impI)
  fix x y show "(code_unit_compare x y < 0) = (0 < code_unit_compare y x)"
    by (rule code_unit_compare_swap)
next
  fix x y z
  assume "code_unit_compare x y \<le> 0 \<and> code_unit_compare y z \<le> 0"
  then show "code_unit_compare x z \<le> 0"
    using code_unit_compare_trans by blast
qed

lemma to_double_exact: "n \<le> 2 ^ 53 \<Longrightarrow> to_double n = Finite n"
  by (simp add: to_double_def)

lemma digitless_not_before_small_number:
  assumes sorted: "sorted_wrt (displayed_before lc) ds"
    and ij: "i < j" "j < length ds"
    and none: "first_digits (q_id (ds ! i)) = None"
    and some: "first_digits (q_id (ds ! j)) = Some d"
  shows "MAX_SAFE_INTEGER \<le> decimal_value d"
proof (rule ccontr)
  assume "\<not> MAX_SAFE_INTEGER \<le> decimal_value d"
  then have small: "decimal_value d < MAX_SAFE_INTEGER" by simp
  then have "decimal_value d \<le> 2 ^ 53" by (simp add: MAX_SAFE_INTEGER_def)
  then have qj: "q_number (q_id (ds ! j)) = Finite (decimal_value d)"
    using some by (simp add: q_number_def to_double_exact)
  from none have qi: "q_number (q_id (ds ! i)) = Finite MAX_SAFE_INTEGER"
    by (simp add: q_number_def)
  from sorted ij have "displayed_before lc (ds ! i) (ds ! j)"
    by (simp add: sorted_wrt_iff_nth_less)
  with qi qj small show False by (simp add: displayed_before_def)
qed

text \<open>
  C10 (as amended). For a consistent \<open>localeCompare\<close> and a valid array reference, the list
  the panel displays is a permutation of \<open>assessmentResults\<close>; the array the panel
  received is left as it was; the list is in ascending order of the \<open>Number\<close> value of the
  first run of digits of \<open>q_id\<close>, where a \<open>q_id\<close> without a digit counts as \<open>2^53 - 1\<close>, and
  among equal numbers in the order of \<open>localeCompare\<close> on the whole \<open>q_id\<close>; and whatever is
  displayed after a \<open>q_id\<close> without a digit has no number below \<open>2^53 - 1\<close>.
\<close>

theorem review_panel_order:
  assumes "consistent_collation localeCompare" and "assessmentResults < length h"
  shows "mset (snd (displayed_results localeCompare h assessmentResults)) = mset (h ! assessmentResults)
       \<and> fst (displayed_results localeCompare h assessmentResults) ! assessmentResults = h ! assessmentResults
       \<and> sorted_wrt (displayed_before localeCompare) (snd (displayed_results localeCompare h assessmentResults))
       \<and> (\<forall>i j d. i < j \<and> j < length (snd (displayed_results localeCompare h assessmentResults))
             \<and> first_digits (q_id (snd (displayed_results localeCompare h assessmentResults) ! i)) = None
             \<and> first_digits (q_id (snd (displayed_results localeCompare h assessmentResults) ! j)) = Some d
             \<longrightarrow> MAX_SAFE_INTEGER \<le> decimal_value d)"
proof -
  let ?ds = "snd (displayed_results localeCompare h assessmentResults)"
  have perm: "mset ?ds = mset (h ! assessmentResults)"
    by (simp add: displayed_results_eq mset_sort_by)
  have kept: "fst (displayed_results localeCompare h assessmentResults) ! assessmentResults = h ! assessmentResults"
    using assms(2) by (rule displayed_results_store)
  have sorted: "sorted_wrt (displayed_before localeCompare) ?ds"
    unfolding displayed_results_eq by (rule sorted_compare_results [OF assms(1)])
  have last: "\<forall>i j d. i < j \<and> j < length ?ds
             \<and> first_digits (q_id (?ds ! i)) = None
             \<and> first_digits (q_id (?ds ! j)) = Some d
             \<longrightarrow> MAX_SAFE_INTEGER \<le> decimal_value d"
    using digitless_not_before_small_number [OF sorted] by blast
  from perm kept sorted last show ?thesis by blast
qed

lemma q_number_samples:
  "q_number ''Q10'' = Finite 10" "q_number ''abc'' = Finite 9007199254740991"
  "q_number ''Q2'' = Finite 2" "q_number ''2b'' = Finite 2"
  by (simp_all add: q_number_def first_digits_def is_digit_def decimal_value_def digit_value_def
        to_double_def MAX_SAFE_INTEGER_def)

lemma sample_sorted:
  "snd (displayed_results code_unit_compare [sample_results] 0) =
     [result_for 4 ''2b'', result_for 3 ''Q2'', result_for 1 ''Q10'', result_for 2 ''abc'']"
  by (simp add: displayed_results_eq sort_by_def compare_results_def sample_results_def
        result_for_def q_number_samples js_minus_sign_def)

lemma sample_sidebar:
  "sidebar code_unit_compare (Some ''Q2'') [sample_results] 0 =
     QuestionButtons
       [\<lparr>button_key = ''2b'', button_active = False, button_label = ''Question 2''\<rparr>,
        \<lparr>button_key = ''Q2'', button_active = True, button_label = ''Question 2''\<rparr>,
        \<lparr>button_key = ''Q10'', button_active = False, button_label = ''Question 10''\<rparr>,
        \<lparr>button_key = ''abc'', button_active = False, button_label = ''Question abc''\<rparr>]"
  by (simp add: sidebar_def sample_sorted render_button_def)
     (simp add: sample_results_def result_for_def first_digits_def is_digit_def)

text \<open>
  The theorem at four results with the code unit collation: \<open>2b\<close> and \<open>Q2\<close> share the
  number 2 and are told apart by the collation, \<open>Q10\<close> follows, \<open>abc\<close> comes last.
\<close>

theorem review_panel_order_witness:
  "consistent_collation code_unit_compare
   \<and> (0::nat) < length [sample_results]
   \<and> snd (displayed_results code_unit_compare [sample_results] 0) =
       [result_for 4 ''2b'', result_for 3 ''Q2'', result_for 1 ''Q10'', result_for 2 ''abc'']
   \<and> mset (snd (displayed_results code_unit_compare [sample_results] 0)) = mset sample_results
   \<and> fst (displayed_results code_unit_compare [sample_results] 0) ! 0 = sample_results
   \<and> sorted_wrt (displayed_before code_unit_compare)
        [result_for 4 ''2b'', result_for 3 ''Q2'', result_for 1 ''Q10'', result_for 2 ''abc'']"
proof -
  have len: "(0::nat) < length [sample_results]" by simp
  from review_panel_order [OF code_unit_compare_consistent len]
  show ?thesis using code_unit_compare_consistent by (simp add: sample_sorted)
qed

lemma q_number_counterexample:
  "q_number ''9007199254740992'' = Finite 9007199254740992"
  "q_number ''abc'' = Finite 9007199254740991"
  by (simp_all add: q_number_def first_digits_def is_digit_def decimal_value_def digit_value_def
        to_double_def MAX_SAFE_INTEGER_def)

text \<open>
  C10 as stated fails: a \<open>q_id\<close> without a digit is not ordered after every numbered one.
  The \<open>q_id\<close> \<open>9007199254740992\<close> is numbered, its number \<open>2^53\<close> is above the \<open>2^53 - 1\<close>
  that \<open>abc\<close> counts as, and the panel displays \<open>abc\<close> first.
\<close>

theorem review_panel_digitless_first_counterexample:
  "first_digits ''abc'' = None
   \<and> first_digits ''9007199254740992'' = Some ''9007199254740992''
   \<and> snd (displayed_results code_unit_compare
            [[result_for 1 ''9007199254740992'', result_for 2 ''abc'']] 0) =
       [result_for 2 ''abc'', result_for 1 ''9007199254740992'']"
  by (simp add: displayed_results_eq sort_by_def compare_results_def result_for_def
        q_number_counterexample js_minus_sign_def first_digits_def is_digit_def)

section \<open>No matching section, told apart from an error\<close>

lemma strip_header_None: "(strip_header pats s0 = None) = (\<forall>p\<in>set pats. \<not> starts_with_ci p s0)"
proof (cases "find (\<lambda>p. starts_with_ci p s0) pats")
  case None
  then have "\<forall>p\<in>set pats. \<not> starts_with_ci p s0" by (simp add: find_None_iff)
  with None show ?thesis by (simp add: strip_header_def)
next
  case (Some p)
  then have "p \<in> set pats \<and> starts_with_ci p s0" by (auto simp: find_Some_iff)
  with Some show ?thesis by (auto simp: strip_header_def)
qed

lemma contains_header_Nil: "contains_header pats [] = (\<exists>p\<in>set pats. starts_with_ci p [])"
  by (auto simp: contains_header_def)

lemma contains_header_Cons:
  "contains_header pats (c # cs) =
     ((\<exists>p\<in>set pats. starts_with_ci p (c # cs)) \<or> contains_header pats cs)"
proof
  assume "contains_header pats (c # cs)"
  then obtain pre rest p where p: "p \<in> set pats" and split: "c # cs = pre @ rest"
    and m: "starts_with_ci p rest"
    unfolding contains_header_def by blast
  show "(\<exists>p\<in>set pats. starts_with_ci p (c # cs)) \<or> contains_header pats cs"
  proof (cases pre)
    case Nil
    with split m p show ?thesis by auto
  next
    case (Cons b bs)
    with split have "cs = bs @ rest" by simp
    with p m have "contains_header pats cs" unfolding contains_header_def by blast
    then show ?thesis ..
  qed
next
  assume "(\<exists>p\<in>set pats. starts_with_ci p (c # cs)) \<or> contains_header pats cs"
  then show "contains_header pats (c # cs)"
  proof
    assume "\<exists>p\<in>set pats. starts_with_ci p (c # cs)"
    then obtain p where "p \<in> set pats" and "starts_with_ci p (c # cs)" by blast
    then have "p \<in> set pats \<and> c # cs = [] @ (c # cs) \<and> starts_with_ci p (c # cs)" by simp
    then show ?thesis unfolding contains_header_def by blast
  next
    assume "contains_header pats cs"
    then obtain pre rest p where "p \<in> set pats" and "cs = pre @ rest"
      and "starts_with_ci p rest"
      unfolding contains_header_def by blast
    then have "p \<in> set pats \<and> c # cs = (c # pre) @ rest \<and> starts_with_ci p rest" by simp
    then show ?thesis unfolding contains_header_def by blast
  qed
qed

lemma after_header_None: "(after_header pats s0 = None) = (\<not> contains_header pats s0)"
proof (induction s0)
  case Nil
  show ?case by (simp add: strip_header_None contains_header_Nil)
next
  case (Cons c cs)
  show ?case
  proof (cases "strip_header pats (c # cs)")
    case None
    with Cons show ?thesis by (simp add: contains_header_Cons) (simp add: strip_header_None)
  next
    case (Some rest)
    then have "\<not> (\<forall>p\<in>set pats. \<not> starts_with_ci p (c # cs))"
      using strip_header_None [of pats "c # cs"] by simp
    with Some show ?thesis by (simp add: contains_header_Cons)
  qed
qed

lemma locate_NotFound:
  "(locate ps spec = NotFound) = (\<forall>p\<in>set ps. \<not> contains_header (header_patterns spec) (raw_text p))"
proof (induction ps)
  case Nil
  show ?case by simp
next
  case (Cons p ps)
  show ?case
  proof (cases "after_header (header_patterns spec) (raw_text p)")
    case None
    with Cons show ?thesis using after_header_None [of "header_patterns spec" "raw_text p"] by simp
  next
    case (Some rest)
    then show ?thesis using after_header_None [of "header_patterns spec" "raw_text p"] by simp
  qed
qed

lemma fetch_after_lookup_miss:
  "lookup_misses srv \<Longrightarrow>
   fst (fetchCriterionAnswer srv a q s) =
   fst (extract_and_save srv a q (s\<lparr>evaluateExtractError := [], evaluateExtracting := True\<rparr>))"
  by (auto simp: lookup_misses_def fetchCriterionAnswer_def Let_def
        split: fetched.splits json_body.splits option.splits prod.splits if_splits)

lemma extract_without_paragraph:
  "extract_response srv = Response True body \<Longrightarrow> without_paragraph body \<Longrightarrow>
   extract_and_save srv a q s =
     (s\<lparr>evaluateExtractError := ''No matching section found in PDF.'',
        evaluateAnswer := [], evaluateExtracting := False\<rparr>,
      [PostExtractAnswer a q])"
  by (auto simp: extract_and_save_def without_paragraph_def fetch_finally_def
        split: json_body.splits option.splits)

lemma extract_not_ok:
  "extract_response srv = Response False body \<Longrightarrow> body \<noteq> JsonRejected \<Longrightarrow>
   extract_and_save srv a q s =
     (s\<lparr>evaluateExtractError :=
          (case server_detail body of None \<Rightarrow> ''Failed to extract answer'' | Some d \<Rightarrow> d),
        evaluateAnswer := [], evaluateExtracting := False\<rparr>,
      [PostExtractAnswer a q])"
  by (auto simp: extract_and_save_def server_detail_def fetch_finally_def
        split: json_body.splits option.splits)

text \<open>
  C3 (as amended). \<open>locate\<close> returns \<open>NotFound\<close>, a result and not a failure, whenever no
  page of the range contains a matching header, and a request that fails in extraction
  ends with its error instead, so the caller can tell the two apart. In the frontend, once
  the lookup had nothing to use, an \<open>ok\<close> extract-answer response without a paragraph
  yields the message "No matching section found in PDF."; a response that is not \<open>ok\<close>
  yields the server's error detail when its body carries a non-empty one, and the fixed
  message "Failed to extract answer" when it carries none.
\<close>

theorem not_found_is_told_apart_from_errors:
  "((\<forall>p\<in>set ps. \<not> contains_header (header_patterns spec) (raw_text p)) \<longrightarrow>
       locate ps spec = NotFound \<and> locate_request (Inr ps) spec = Inr NotFound)
   \<and> locate_request (Inl failure) spec = Inl failure
   \<and> locate_request (Inl failure) spec \<noteq> Inr NotFound
   \<and> (lookup_misses srv \<and> extract_response srv = Response True body \<and> without_paragraph body \<longrightarrow>
        evaluateExtractError (fst (fetchCriterionAnswer srv a q s)) = ''No matching section found in PDF.''
        \<and> evaluateAnswer (fst (fetchCriterionAnswer srv a q s)) = [])
   \<and> (lookup_misses srv \<and> extract_response srv = Response False body \<and> server_detail body = Some d \<longrightarrow>
        evaluateExtractError (fst (fetchCriterionAnswer srv a q s)) = d
        \<and> evaluateAnswer (fst (fetchCriterionAnswer srv a q s)) = [])
   \<and> (lookup_misses srv \<and> extract_response srv = Response False body \<and> body \<noteq> JsonRejected
        \<and> server_detail body = None \<longrightarrow>
        evaluateExtractError (fst (fetchCriterionAnswer srv a q s)) = ''Failed to extract answer''
        \<and> evaluateAnswer (fst (fetchCriterionAnswer srv a q s)) = [])"
proof (intro conjI impI)
  assume "\<forall>p\<in>set ps. \<not> contains_header (header_patterns spec) (raw_text p)"
  then show nf: "locate ps spec = NotFound" by (simp add: locate_NotFound)
  then show "locate_request (Inr ps) spec = Inr NotFound" by (simp add: locate_request_def)
next
  show "locate_request (Inl failure) spec = Inl failure" by (simp add: locate_request_def)
  show "locate_request (Inl failure) spec \<noteq> Inr NotFound" by (simp add: locate_request_def)
next
  assume h: "lookup_misses srv \<and> extract_response srv = Response True body \<and> without_paragraph body"
  then have "fst (fetchCriterionAnswer srv a q s) =
      s\<lparr>evaluateExtractError := ''No matching section found in PDF.'',
        evaluateAnswer := [], evaluateExtracting := False\<rparr>"
    by (simp add: fetch_after_lookup_miss extract_without_paragraph)
  then show "evaluateExtractError (fst (fetchCriterionAnswer srv a q s)) = ''No matching section found in PDF.''"
    and "evaluateAnswer (fst (fetchCriterionAnswer srv a q s)) = []"
    by simp_all
next
  assume h: "lookup_misses srv \<and> extract_response srv = Response False body \<and> server_detail body = Some d"
  then have "body \<noteq> JsonRejected" by (auto simp: server_detail_def)
  with h have "fst (fetchCriterionAnswer srv a q s) =
      s\<lparr>evaluateExtractError := d, evaluateAnswer := [], evaluateExtracting := False\<rparr>"
    by (simp add: fetch_after_lookup_miss extract_not_ok)
  then show "evaluateExtractError (fst (fetchCriterionAnswer srv a q s)) = d"
    and "evaluateAnswer (fst (fetchCriterionAnswer srv a q s)) = []"
    by simp_all
next
  assume h: "lookup_misses srv \<and> extract_response srv = Response False body \<and> body \<noteq> JsonRejected
        \<and> server_detail body = None"
  then have "fst (fetchCriterionAnswer srv a q s) =
      s\<lparr>evaluateExtractError := ''Failed to extract answer'', evaluateAnswer := [],
        evaluateExtracting := False\<rparr>"
    by (simp add: fetch_after_lookup_miss extract_not_ok)
  then show "evaluateExtractError (fst (fetchCriterionAnswer srv a q s)) = ''Failed to extract answer''"
    and "evaluateAnswer (fst (fetchCriterionAnswer srv a q s)) = []"
    by simp_all
qed

lemma sample_pages_not_found:
  "locate [native_page 1 ''Section 2'', native_page 2 ''Our approach''] criterion2 = NotFound"
  by (simp add: native_page_def criterion2_def header_patterns_def strip_header_def
        starts_with_ci_def lower_code_def)

lemma sample_pages_located:
  "locate [native_page 1 ''Overview'', native_page 2 ''CRITERION 2 We use AES-256 encryption. '',
           native_page 3 ''3. Criterion Hosting'']
     criterion2 =
   Located \<lparr>paragraph_text = ''We use AES-256 encryption.'', source_page = 2, confidence_note = []\<rparr>"
  by (simp add: native_page_def criterion2_def header_patterns_def strip_header_def
        starts_with_ci_def lower_code_def family_header_at_def is_digit_def js_trim_def js_space_def)

text \<open>
  The theorem at the specification's example (label "Criterion", number 2, pages that
  hold "Section 2" only) and at three servers: one that finds no section, one that fails
  with a detail, one that fails without.
\<close>

theorem not_found_is_told_apart_from_errors_witness:
  "\<not> contains_header (header_patterns criterion2) ''Section 2''
   \<and> \<not> contains_header (header_patterns criterion2) ''Our approach''
   \<and> locate [native_page 1 ''Section 2'', native_page 2 ''Our approach''] criterion2 = NotFound
   \<and> locate_request (Inr [native_page 1 ''Section 2'', native_page 2 ''Our approach'']) criterion2
       = Inr NotFound
   \<and> locate_request (Inl OCRUnavailable) criterion2 = Inl OCRUnavailable
   \<and> lookup_misses server_without_section
   \<and> without_paragraph (JsonObject \<lparr>detail = None, paragraph_field = None\<rparr>)
   \<and> evaluateExtractError (fst (fetchCriterionAnswer server_without_section 7 ''Q2'' initial_state))
       = ''No matching section found in PDF.''
   \<and> lookup_misses server_error_with_detail
   \<and> evaluateExtractError (fst (fetchCriterionAnswer server_error_with_detail 7 ''Q2'' initial_state))
       = ''OCR is not available''
   \<and> lookup_misses server_error_without_detail
   \<and> evaluateExtractError (fst (fetchCriterionAnswer server_error_without_detail 7 ''Q2'' initial_state))
       = ''Failed to extract answer''"
proof -
  let ?ps = "[native_page 1 ''Section 2'', native_page 2 ''Our approach'']"
  have none: "\<forall>p\<in>set ?ps. \<not> contains_header (header_patterns criterion2) (raw_text p)"
    using sample_pages_not_found by (simp only: locate_NotFound)
  then have texts: "\<not> contains_header (header_patterns criterion2) ''Section 2''"
      "\<not> contains_header (header_patterns criterion2) ''Our approach''"
    by (simp_all add: native_page_def)
  have m1: "lookup_misses server_without_section"
    and m2: "lookup_misses server_error_with_detail"
    and m3: "lookup_misses server_error_without_detail"
    by (simp_all add: lookup_misses_def server_without_section_def server_error_with_detail_def
          server_error_without_detail_def stored_answer_def)
  have r1: "extract_response server_without_section =
      Response True (JsonObject \<lparr>detail = None, paragraph_field = None\<rparr>)"
    and r2: "extract_response server_error_with_detail =
      Response False (JsonObject \<lparr>detail = Some ''OCR is not available'', paragraph_field = None\<rparr>)"
    and r3: "extract_response server_error_without_detail =
      Response False (JsonObject \<lparr>detail = None, paragraph_field = None\<rparr>)"
    by (simp_all add: server_without_section_def server_error_with_detail_def
          server_error_without_detail_def)
  have w: "without_paragraph (JsonObject \<lparr>detail = None, paragraph_field = None\<rparr>)"
    by (simp add: without_paragraph_def)
  have d2: "server_detail (JsonObject \<lparr>detail = Some ''OCR is not available'', paragraph_field = None\<rparr>)
      = Some ''OCR is not available''"
    and d3: "server_detail (JsonObject \<lparr>detail = None, paragraph_field = None\<rparr>) = None"
    by (simp_all add: server_detail_def)
  note t1 = not_found_is_told_apart_from_errors
      [of ?ps criterion2 OCRUnavailable server_without_section
          "JsonObject \<lparr>detail = None, paragraph_field = None\<rparr>" 7 "''Q2''" initial_state
          "''OCR is not available''"]
  note t2 = not_found_is_told_apart_from_errors
      [of ?ps criterion2 OCRUnavailable server_error_with_detail
          "JsonObject \<lparr>detail = Some ''OCR is not available'', paragraph_field = None\<rparr>"
          7 "''Q2''" initial_state "''OCR is not available''"]
  note t3 = not_found_is_told_apart_from_errors
      [of ?ps criterion2 OCRUnavailable server_error_without_detail
          "JsonObject \<lparr>detail = None, paragraph_field = None\<rparr>"
          7 "''Q2''" initial_state "''OCR is not available''"]
  from t1 none m1 r1 w have c1: "locate ?ps criterion2 = NotFound"
      "locate_request (Inr ?ps) criterion2 = Inr NotFound"
      "locate_request (Inl OCRUnavailable) criterion2 = Inl OCRUnavailable"
      "evaluateExtractError (fst (fetchCriterionAnswer server_without_section 7 ''Q2'' initial_state))
        = ''No matching section found in PDF.''"
    by blast+
  from t2 m2 r2 d2 have c2:
      "evaluateExtractError (fst (fetchCriterionAnswer server_error_with_detail 7 ''Q2'' initial_state))
        = ''OCR is not available''"
    by blast
  from t3 m3 r3 d3 have c3:
      "evaluateExtractError (fst (fetchCriterionAnswer server_error_without_detail 7 ''Q2'' initial_state))
        = ''Failed to extract answer''"
    by blast
  from texts c1 m1 w c2 m2 c3 m3 show ?thesis by blast
qed

text \<open>
  C3 as stated fails: a response that is not \<open>ok\<close> does not always yield the server's
  error detail. Here the body carries no detail, and the message is the frontend's own.
\<close>

theorem non_ok_without_detail_counterexample:
  "extract_response server_error_without_detail =
     Response False (JsonObject \<lparr>detail = None, paragraph_field = None\<rparr>)
   \<and> snd (fetchCriterionAnswer server_error_without_detail 7 ''Q2'' initial_state) =
       [GetApplicantAnswer 7 ''Q2'', PostExtractAnswer 7 ''Q2'']
   \<and> evaluateExtractError (fst (fetchCriterionAnswer server_error_without_detail 7 ''Q2'' initial_state))
       = ''Failed to extract answer''"
  by (simp add: server_error_without_detail_def fetchCriterionAnswer_def extract_and_save_def
        stored_answer_def fetch_finally_def Let_def)

section \<open>The OCR cache keeps the first transcription\<close>

lemma lookup_append:
  "lookup (cache @ rest) h = (case lookup cache h of Some e \<Rightarrow> Some e | None \<Rightarrow> lookup rest h)"
  by (induction cache) (simp_all add: lookup_def)

lemma lookup_store_same: "lookup (store cache e) (page_hash e) \<noteq> None"
  by (cases "lookup cache (page_hash e)") (simp_all add: store_def lookup_append, simp add: lookup_def)

lemma lookup_store_kept:
  "lookup cache h = Some e \<Longrightarrow> lookup (store cache e') h = Some e"
  by (cases "lookup cache (page_hash e')") (simp_all add: store_def lookup_append)

lemma lookup_fold_store_kept:
  "lookup cache h = Some e \<Longrightarrow> lookup (fold (\<lambda>x c. store c x) later cache) h = Some e"
  by (induction later arbitrary: cache) (simp_all add: lookup_store_kept)

lemma lookup_store_fresh:
  "lookup cache (page_hash e) = None \<Longrightarrow> lookup (store cache e) (page_hash e) = Some e"
  by (simp add: store_def lookup_append) (simp add: lookup_def)

lemma store_again:
  "page_hash e2 = page_hash e1 \<Longrightarrow> store (store cache e1) e2 = store cache e1"
  using lookup_store_same [of cache e1]
  by (cases "lookup (store cache e1) (page_hash e1)") (simp_all add: store_def [of "store cache e1"])

lemma store_distinct:
  assumes "distinct (map page_hash cache)"
  shows "distinct (map page_hash (store cache e))"
proof (cases "lookup cache (page_hash e)")
  case None
  then have "\<forall>x\<in>set cache. page_hash x \<noteq> page_hash e"
    by (simp add: lookup_def find_None_iff)
  with None assms show ?thesis by (auto simp: store_def)
next
  case (Some existing)
  with assms show ?thesis by (simp add: store_def)
qed

text \<open>
  C2. \<open>store\<close> is insert-only and idempotent: for every cache and every two entries with
  the same hash, storing the second after the first changes nothing, a lookup after both
  stores returns what it returned after the first, and so does a lookup after any further
  stores. When the hash was absent before, that is the first entry with its text. The
  hashes of the table stay unique.
\<close>

theorem store_is_insert_only:
  assumes "page_hash second = page_hash first"
  shows "store (store cache first) second = store cache first
       \<and> lookup (store (store cache first) second) (page_hash first)
           = lookup (store cache first) (page_hash first)
       \<and> lookup (fold (\<lambda>entry c. store c entry) later (store cache first)) (page_hash first)
           = lookup (store cache first) (page_hash first)
       \<and> (lookup cache (page_hash first) = None \<longrightarrow>
            lookup (store (store cache first) second) (page_hash first) = Some first
            \<and> lookup (fold (\<lambda>entry c. store c entry) later (store cache first)) (page_hash first)
                = Some first)
       \<and> (distinct (map page_hash cache) \<longrightarrow>
            distinct (map page_hash (store (store cache first) second)))"
proof -
  have again: "store (store cache first) second = store cache first"
    using assms by (rule store_again)
  obtain kept where kept: "lookup (store cache first) (page_hash first) = Some kept"
    using lookup_store_same [of cache first] by blast
  then have later: "lookup (fold (\<lambda>entry c. store c entry) later (store cache first)) (page_hash first)
      = lookup (store cache first) (page_hash first)"
    by (simp add: lookup_fold_store_kept)
  have fresh: "lookup cache (page_hash first) = None \<longrightarrow>
      lookup (store cache first) (page_hash first) = Some first"
    by (simp add: lookup_store_fresh)
  have uniq: "distinct (map page_hash cache) \<longrightarrow> distinct (map page_hash (store cache first))"
    by (simp add: store_distinct)
  from again later fresh uniq show ?thesis by simp
qed

text \<open>
  The theorem at two transcriptions of one page that differ in their text: the first one
  stays, also after the second is stored again between other stores.
\<close>

theorem store_is_insert_only_witness:
  "page_hash second_transcription = page_hash first_transcription
   \<and> extracted_text second_transcription \<noteq> extracted_text first_transcription
   \<and> lookup [other_page] (page_hash first_transcription) = None
   \<and> store (store [other_page] first_transcription) second_transcription
       = [other_page, first_transcription]
   \<and> lookup (store (store [other_page] first_transcription) second_transcription)
         (page_hash first_transcription) = Some first_transcription
   \<and> lookup (fold (\<lambda>entry c. store c entry) [second_transcription, other_page, second_transcription]
               (store [other_page] first_transcription))
         (page_hash first_transcription) = Some first_transcription"
proof -
  have same: "page_hash second_transcription = page_hash first_transcription"
    by (simp add: first_transcription_def second_transcription_def)
  have differ: "extracted_text second_transcription \<noteq> extracted_text first_transcription"
    by (simp add: first_transcription_def second_transcription_def)
  have absent: "lookup [other_page] (page_hash first_transcription) = None"
    by (simp add: lookup_def other_page_def first_transcription_def)
  have stored: "store [other_page] first_transcription = [other_page, first_transcription]"
    using absent by (simp add: store_def)
  note t = store_is_insert_only [OF same, of "[other_page]"
      "[second_transcription, other_page, second_transcription]"]
  from t have again: "store (store [other_page] first_transcription) second_transcription
      = store [other_page] first_transcription"
    by blast
  with stored have list: "store (store [other_page] first_transcription) second_transcription
      = [other_page, first_transcription]"
    by simp
  from t absent have kept:
    "lookup (store (store [other_page] first_transcription) second_transcription)
         (page_hash first_transcription) = Some first_transcription"
    "lookup (fold (\<lambda>entry c. store c entry) [second_transcription, other_page, second_transcription]
               (store [other_page] first_transcription))
         (page_hash first_transcription) = Some first_transcription"
    by blast+
  from same differ absent list kept show ?thesis by blast
qed

end
